theory Spec2Isabelle
  imports Complex_Main
begin

section \<open>Data model\<close>

text \<open>
  The service is a Go program over a PostgreSQL database. Identifiers (\<open>uuid.UUID\<close>) are
  modelled as natural numbers, \<open>decimal.Decimal\<close> (arbitrary-precision decimals, of which
  only comparison, addition and subtraction are used) as exact rationals, and timestamps as
  natural numbers (ticks of the database clock). The columns \<open>NUMERIC(38,10)\<close> are taken to
  hold every value exactly: the finite precision of the column type is not modelled.
\<close>

type_synonym uuid = nat
type_synonym decimal = rat
type_synonym timestamp = nat

text \<open>\<open>model.Account\<close>, one row of the table \<open>accounts\<close>.\<close>

record Account =
  acc_ID :: uuid
  Balance :: decimal
  acc_CreatedAt :: timestamp
  UpdatedAt :: timestamp

datatype TransactionStatus =
    TransactionStatusPending
  | TransactionStatusCompleted
  | TransactionStatusFailed

text \<open>\<open>model.Transaction\<close>, one row of the table \<open>transactions\<close>.\<close>

record Transaction =
  txn_ID :: uuid
  txn_SourceAccountID :: "uuid option"
  txn_DestinationAccountID :: uuid
  txn_Amount :: decimal
  txn_Reference :: "string option"
  txn_Status :: TransactionStatus
  txn_CreatedAt :: timestamp
  txn_CompletedAt :: "timestamp option"

record CreateTransactionRequest =
  SourceAccountID :: "uuid option"
  DestinationAccountID :: uuid
  Amount :: decimal
  Reference :: "string option"

record CreateTransactionResponse =
  resp_ID :: uuid
  resp_SourceAccountID :: "uuid option"
  resp_DestinationAccountID :: uuid
  resp_Amount :: decimal
  resp_Reference :: "string option"
  resp_Status :: TransactionStatus
  resp_CreatedAt :: timestamp

text \<open>The error codes of \<open>model\<close> (string constants in the source).\<close>

datatype ErrCode =
    ErrCodeValidation
  | ErrCodeNotFound
  | ErrCodeInternalError
  | ErrCodeInsufficientFunds
  | ErrCodeInvalidInput
  | ErrCodeConflict

text \<open>\<open>model.TransferError\<close>, an entry of the failure list of a bulk response.\<close>

record TransferError =
  Index :: nat
  Error :: string
  Code :: ErrCode

record BulkTransferResponse =
  Transfers :: "CreateTransactionResponse list"
  Failed :: "TransferError list"

text \<open>\<open>repository.IdempotencyRecord\<close>, one row of the table \<open>idempotency_keys\<close>.\<close>

record IdempotencyRecord =
  KeyHash :: string
  RequestBody :: string
  ResponseBody :: "string option"
  ResponseStatus :: "nat option"
  idem_CreatedAt :: timestamp
  ExpiresAt :: timestamp

text \<open>
  The Go \<open>error\<close> values the program produces: \<open>*service.ServiceError\<close> (code and
  message), \<open>*model.ValidationError\<close> (field and message), the sentinels of package
  \<open>repository\<close>, and the errors built by \<open>fmt.Errorf("...: %w", err)\<close> around a failure of
  the database driver, of which the wrapping prefix is kept.
\<close>

datatype error =
    ServiceError ErrCode string
  | ValidationError string string
  | ErrAccountNotFound
  | ErrTransactionNotFound
  | StorageError string

text \<open>\<open>err.Error()\<close>.\<close>

fun error_string :: "error \<Rightarrow> string" where
  "error_string (ServiceError c m) = m"
| "error_string (ValidationError f m) = m"
| "error_string ErrAccountNotFound = ''account not found''"
| "error_string ErrTransactionNotFound = ''transaction not found''"
| "error_string (StorageError m) = m"

text \<open>
  The database: the three tables of \<open>migrations/001_create_schema.sql\<close>, the clock read by
  \<open>NOW()\<close> and the next value of \<open>gen_random_uuid()\<close>. The table \<open>accounts\<close> is a map from
  the primary key to the row; \<open>transactions\<close> lists its rows in insertion order.
\<close>

record db =
  accounts :: "uuid \<rightharpoonup> Account"
  transactions :: "Transaction list"
  idempotency_keys :: "string \<rightharpoonup> IdempotencyRecord"
  now :: timestamp
  next_uuid :: uuid

section \<open>Account repository\<close>

text \<open>
  Every repository function takes a flag \<open>fault\<close>: the database driver failed on this call
  (lost connection, serialization failure, deadlock, cancelled context). The function then
  returns the wrapped driver error and writes nothing.
\<close>


definition AccountRepository_GetByID :: "bool \<Rightarrow> db \<Rightarrow> uuid \<Rightarrow> error + Account" where
  "AccountRepository_GetByID fault st ident =
     (if fault then Inl (StorageError ''failed to get account'')
      else case accounts st ident of
             None \<Rightarrow> Inl ErrAccountNotFound
           | Some account \<Rightarrow> Inr account)"

text \<open>\<open>AccountRepository.GetBalanceForUpdate\<close>: \<open>SELECT balance ... FOR UPDATE\<close>.\<close>

definition AccountRepository_GetBalanceForUpdate :: "bool \<Rightarrow> db \<Rightarrow> uuid \<Rightarrow> error + decimal" where
  "AccountRepository_GetBalanceForUpdate fault tx ident =
     (if fault then Inl (StorageError ''failed to get account balance for update'')
      else case accounts tx ident of
             None \<Rightarrow> Inl ErrAccountNotFound
           | Some account \<Rightarrow> Inr (Balance account))"

text \<open>
  \<open>AccountRepository.UpdateBalance\<close>:
  \<open>UPDATE accounts SET balance = $1, updated_at = NOW() WHERE id = $2\<close>. The Go function
  has no check of its own on \<open>newBalance\<close>; a row with a negative new balance is refused by
  the table's \<open>CONSTRAINT positive_balance CHECK (balance >= 0)\<close>, which the driver reports as
  an error of \<open>ExecContext\<close>. When no row has the id, no row is affected and the function
  returns \<open>ErrAccountNotFound\<close>.
\<close>

definition AccountRepository_UpdateBalance :: "bool \<Rightarrow> db \<Rightarrow> uuid \<Rightarrow> decimal \<Rightarrow> error + db" where
  "AccountRepository_UpdateBalance fault tx ident newBalance =
     (if fault then Inl (StorageError ''failed to update account balance'')
      else case accounts tx ident of
             None \<Rightarrow> Inl ErrAccountNotFound
           | Some account \<Rightarrow>
               if newBalance < 0 then Inl (StorageError ''failed to update account balance'')
               else Inr (tx\<lparr>accounts := (accounts tx)(ident \<mapsto>
                              account\<lparr>Balance := newBalance, UpdatedAt := now tx\<rparr>)\<rparr>))"

text \<open>
  \<open>AccountRepository.GetBalanceAt\<close>:
  \<open>SELECT balance FROM accounts WHERE id = $1 AND updated_at <= $2 ORDER BY updated_at DESC LIMIT 1\<close>.
  The table has one row per id, so the query returns that row's balance or no row.
\<close>

definition AccountRepository_GetBalanceAt :: "bool \<Rightarrow> db \<Rightarrow> uuid \<Rightarrow> timestamp \<Rightarrow> error + decimal" where
  "AccountRepository_GetBalanceAt fault st ident ts =
     (if fault then Inl (StorageError ''failed to get historical balance'')
      else case accounts st ident of
             None \<Rightarrow> Inl ErrAccountNotFound
           | Some account \<Rightarrow>
               if UpdatedAt account \<le> ts then Inr (Balance account)
               else Inl ErrAccountNotFound)"

definition AccountRepository_Exists :: "bool \<Rightarrow> db \<Rightarrow> uuid \<Rightarrow> error + bool" where
  "AccountRepository_Exists fault st ident =
     (if fault then Inl (StorageError ''failed to check account existence'')
      else Inr (accounts st ident \<noteq> None))"

section \<open>Account service\<close>



text \<open>
  \<open>AccountService.GetAccountBalance\<close>: with \<open>at\<close> given, the historical balance; a
  repository \<open>ErrAccountNotFound\<close> becomes the service error \<open>NOT_FOUND\<close>.
\<close>

definition AccountService_GetAccountBalance ::
    "bool \<Rightarrow> db \<Rightarrow> uuid \<Rightarrow> timestamp option \<Rightarrow> error + decimal" where
  "AccountService_GetAccountBalance fault st ident atTime =
     (case atTime of
        Some ts \<Rightarrow>
          (case AccountRepository_GetBalanceAt fault st ident ts of
             Inl err \<Rightarrow> if err = ErrAccountNotFound
                        then Inl (ServiceError ErrCodeNotFound ''Account not found'')
                        else Inl err
           | Inr balance \<Rightarrow> Inr balance)
      | None \<Rightarrow>
          (case AccountRepository_GetByID fault st ident of
             Inl err \<Rightarrow> if err = ErrAccountNotFound
                        then Inl (ServiceError ErrCodeNotFound ''Account not found'')
                        else Inl err
           | Inr account \<Rightarrow> Inr (Balance account)))"

section \<open>Transaction repository\<close>

text \<open>
  \<open>TransactionRepository.Create\<close>: \<open>INSERT INTO transactions ... RETURNING ...\<close> with status
  \<open>pending\<close>. The insert is refused by the table's constraints \<open>positive_amount\<close> and
  \<open>different_accounts\<close>, by its two foreign keys and by its primary key.
\<close>

definition TransactionRepository_Create ::
    "bool \<Rightarrow> db \<Rightarrow> CreateTransactionRequest \<Rightarrow> error + (Transaction \<times> db)" where
  "TransactionRepository_Create fault tx req =
     (if fault
         \<or> Amount req \<le> 0
         \<or> SourceAccountID req = Some (DestinationAccountID req)
         \<or> (case SourceAccountID req of Some src \<Rightarrow> accounts tx src = None | None \<Rightarrow> False)
         \<or> accounts tx (DestinationAccountID req) = None
         \<or> next_uuid tx \<in> txn_ID ` set (transactions tx)
      then Inl (StorageError ''failed to create transaction'')
      else
        let transaction = \<lparr>txn_ID = next_uuid tx,
                            txn_SourceAccountID = SourceAccountID req,
                            txn_DestinationAccountID = DestinationAccountID req,
                            txn_Amount = Amount req,
                            txn_Reference = Reference req,
                            txn_Status = TransactionStatusPending,
                            txn_CreatedAt = now tx,
                            txn_CompletedAt = None\<rparr>
        in Inr (transaction,
                tx\<lparr>transactions := transactions tx @ [transaction],
                   next_uuid := Suc (next_uuid tx)\<rparr>))"

text \<open>
  \<open>TransactionRepository.UpdateStatus\<close>: \<open>UPDATE transactions SET status = $1,
  completed_at = CASE WHEN $2 IN ('completed', 'failed') THEN NOW() ELSE completed_at END
  WHERE id = $3\<close>; no row affected is \<open>ErrTransactionNotFound\<close>.
\<close>

definition TransactionRepository_UpdateStatus ::
    "bool \<Rightarrow> db \<Rightarrow> uuid \<Rightarrow> TransactionStatus \<Rightarrow> error + db" where
  "TransactionRepository_UpdateStatus fault tx ident status =
     (if fault then Inl (StorageError ''failed to update transaction status'')
      else if ident \<in> txn_ID ` set (transactions tx)
      then Inr (tx\<lparr>transactions :=
                  map (\<lambda>t. if txn_ID t = ident
                           then t\<lparr>txn_Status := status,
                                  txn_CompletedAt :=
                                    (if status = TransactionStatusCompleted
                                        \<or> status = TransactionStatusFailed
                                     then Some (now tx) else txn_CompletedAt t)\<rparr>
                           else t)
                      (transactions tx)\<rparr>)
      else Inl ErrTransactionNotFound)"

text \<open>
  \<open>TransactionRepository.GetAccountTransactions\<close>: the rows with the account as source or
  destination, \<open>ORDER BY created_at DESC LIMIT $2 OFFSET $3\<close>. PostgreSQL refuses a
  negative \<open>LIMIT\<close> or \<open>OFFSET\<close>. Rows with equal \<open>created_at\<close> come in the order the sort
  leaves them (SQL fixes none).
\<close>

definition TransactionRepository_GetAccountTransactions ::
    "bool \<Rightarrow> db \<Rightarrow> uuid \<Rightarrow> int \<Rightarrow> int \<Rightarrow> error + Transaction list" where
  "TransactionRepository_GetAccountTransactions fault st accountID limit offset =
     (if fault \<or> limit < 0 \<or> offset < 0
      then Inl (StorageError ''failed to get account transactions'')
      else Inr (take (nat limit) (drop (nat offset)
             (rev (sort_key txn_CreatedAt
                (filter (\<lambda>t. txn_SourceAccountID t = Some accountID
                              \<or> txn_DestinationAccountID t = accountID)
                   (transactions st)))))))"

section \<open>Idempotency repository\<close>

text \<open>
  The timestamps of the clock are microseconds; \<open>INTERVAL '24 hours'\<close> is this many.
  \<open>GenerateKeyHash\<close> (SHA-256 of the request body, in hexadecimal) is not modelled: the
  repository functions take the key hash as the Go functions do.
\<close>

definition interval_24_hours :: timestamp where
  "interval_24_hours = 86400000000"

text \<open>\<open>IdempotencyRepository.StoreRequest\<close>: \<open>INSERT ... ON CONFLICT (key_hash) DO NOTHING\<close>.\<close>

definition IdempotencyRepository_StoreRequest ::
    "bool \<Rightarrow> db \<Rightarrow> string \<Rightarrow> string \<Rightarrow> error option \<times> db" where
  "IdempotencyRepository_StoreRequest fault st keyHash requestBody =
     (if fault then (Some (StorageError ''failed to store idempotency key''), st)
      else case idempotency_keys st keyHash of
             Some r \<Rightarrow> (None, st)
           | None \<Rightarrow>
               (None, st\<lparr>idempotency_keys := (idempotency_keys st)(keyHash \<mapsto>
                            \<lparr>KeyHash = keyHash, RequestBody = requestBody,
                             ResponseBody = None, ResponseStatus = None,
                             idem_CreatedAt = now st,
                             ExpiresAt = now st + interval_24_hours\<rparr>)\<rparr>))"

text \<open>
  \<open>IdempotencyRepository.GetRequest\<close>: \<open>SELECT ... WHERE key_hash = $1 AND expires_at > NOW()\<close>;
  no row is \<open>(nil, nil)\<close>.
\<close>

definition IdempotencyRepository_GetRequest ::
    "bool \<Rightarrow> db \<Rightarrow> string \<Rightarrow> error + IdempotencyRecord option" where
  "IdempotencyRepository_GetRequest fault st keyHash =
     (if fault then Inl (StorageError ''failed to get idempotency record'')
      else case idempotency_keys st keyHash of
             None \<Rightarrow> Inr None
           | Some r \<Rightarrow> if now st < ExpiresAt r then Inr (Some r) else Inr None)"

text \<open>\<open>IdempotencyRepository.UpdateResponse\<close>.\<close>

definition IdempotencyRepository_UpdateResponse ::
    "bool \<Rightarrow> db \<Rightarrow> string \<Rightarrow> string \<Rightarrow> nat \<Rightarrow> error option \<times> db" where
  "IdempotencyRepository_UpdateResponse fault st keyHash responseBody status =
     (if fault then (Some (StorageError ''failed to update idempotency response''), st)
      else case idempotency_keys st keyHash of
             None \<Rightarrow> (None, st)
           | Some r \<Rightarrow>
               (None, st\<lparr>idempotency_keys := (idempotency_keys st)(keyHash \<mapsto>
                            r\<lparr>ResponseBody := Some responseBody,
                              ResponseStatus := Some status\<rparr>)\<rparr>))"

section \<open>Transaction service\<close>

text \<open>\<open>CreateTransactionRequest.Validate\<close>. Go's \<open>len\<close> of a string counts its bytes.\<close>

definition CreateTransactionRequest_Validate :: "CreateTransactionRequest \<Rightarrow> error option" where
  "CreateTransactionRequest_Validate r =
     (if Amount r = 0 \<or> Amount r < 0
      then Some (ValidationError ''amount'' ''amount must be positive'')
      else if (case SourceAccountID r of
                 Some src \<Rightarrow> src = DestinationAccountID r
               | None \<Rightarrow> False)
      then Some (ValidationError ''destination_account_id''
                   ''source and destination accounts cannot be the same'')
      else if (case Reference r of Some ref \<Rightarrow> 255 < length ref | None \<Rightarrow> False)
      then Some (ValidationError ''reference'' ''reference cannot exceed 255 characters'')
      else None)"

text \<open>
  The storage calls of \<open>CreateTransaction\<close>, in the order of the source. A value of
  \<open>faults\<close> says which of them the database driver fails in one run. The model runs one
  request at a time: what concurrent transactions do to this one (a lock conflict, a
  serialization failure, a deadlock) reaches it as the failure of a storage call.
\<close>

datatype storage_op =
    BeginTx
  | LockSource
  | LockDestination
  | InsertTransaction
  | ReadSource
  | WriteSource
  | ReadDestination
  | WriteDestination
  | MarkCompleted
  | CommitTx

type_synonym faults = "storage_op \<Rightarrow> bool"

definition no_faults :: faults where
  "no_faults = (\<lambda>_. False)"

text \<open>
  \<open>CreateTransaction\<close>, lines 60--80: the locked read of the source account and the check
  of sufficient funds. The result is the error returned, if any.
\<close>

definition check_source :: "faults \<Rightarrow> db \<Rightarrow> CreateTransactionRequest \<Rightarrow> error option" where
  "check_source f tx req =
     (case SourceAccountID req of
        None \<Rightarrow> None
      | Some src \<Rightarrow>
          (case AccountRepository_GetBalanceForUpdate (f LockSource) tx src of
             Inl err \<Rightarrow>
               if err = ErrAccountNotFound
               then Some (ServiceError ErrCodeNotFound ''Source account not found'')
               else Some err
           | Inr sourceBalance \<Rightarrow>
               if sourceBalance < Amount req
               then Some (ServiceError ErrCodeInsufficientFunds
                            ''Insufficient funds in source account'')
               else None))"

text \<open>\<open>CreateTransaction\<close>, lines 100--112: debit the source account, if there is one.\<close>

definition debit_source :: "faults \<Rightarrow> db \<Rightarrow> CreateTransactionRequest \<Rightarrow> error + db" where
  "debit_source f tx req =
     (case SourceAccountID req of
        None \<Rightarrow> Inr tx
      | Some src \<Rightarrow>
          (case AccountRepository_GetBalanceForUpdate (f ReadSource) tx src of
             Inl err \<Rightarrow> Inl err
           | Inr sourceBalance \<Rightarrow>
               AccountRepository_UpdateBalance (f WriteSource) tx src
                 (sourceBalance - Amount req)))"

text \<open>\<open>CreateTransaction\<close>, lines 114--123: credit the destination account.\<close>

definition credit_destination :: "faults \<Rightarrow> db \<Rightarrow> CreateTransactionRequest \<Rightarrow> error + db" where
  "credit_destination f tx req =
     (case AccountRepository_GetBalanceForUpdate (f ReadDestination) tx
             (DestinationAccountID req) of
        Inl err \<Rightarrow> Inl err
      | Inr destBalance \<Rightarrow>
          AccountRepository_UpdateBalance (f WriteDestination) tx (DestinationAccountID req)
            (destBalance + Amount req))"

text \<open>
  \<open>CreateTransaction\<close>, lines 60--129: what runs between \<open>BeginTx\<close> and \<open>Commit\<close>, on the
  database as the transaction sees it. An error is returned as soon as it occurs.
\<close>

definition transfer_in_tx ::
    "faults \<Rightarrow> db \<Rightarrow> CreateTransactionRequest \<Rightarrow> error + (Transaction \<times> db)" where
  "transfer_in_tx f tx req =
     (case check_source f tx req of
        Some err \<Rightarrow> Inl err
      | None \<Rightarrow>
     (case AccountRepository_GetBalanceForUpdate (f LockDestination) tx
             (DestinationAccountID req) of
        Inl err \<Rightarrow>
          if err = ErrAccountNotFound
          then Inl (ServiceError ErrCodeNotFound ''Destination account not found'')
          else Inl err
      | Inr _ \<Rightarrow>
     (case TransactionRepository_Create (f InsertTransaction) tx req of
        Inl err \<Rightarrow> Inl err
      | Inr (transaction, tx1) \<Rightarrow>
     (case debit_source f tx1 req of
        Inl err \<Rightarrow> Inl err
      | Inr tx2 \<Rightarrow>
     (case credit_destination f tx2 req of
        Inl err \<Rightarrow> Inl err
      | Inr tx3 \<Rightarrow>
     (case TransactionRepository_UpdateStatus (f MarkCompleted) tx3 (txn_ID transaction)
             TransactionStatusCompleted of
        Inl err \<Rightarrow> Inl err
      | Inr tx4 \<Rightarrow> Inr (transaction, tx4)))))))"

text \<open>
  \<open>TransactionService.CreateTransaction\<close>. The transaction is serializable; the deferred
  \<open>tx.Rollback()\<close> discards its writes on every error return, and a failed \<open>Commit\<close>
  leaves the database as it was.
\<close>

definition TransactionService_CreateTransaction ::
    "faults \<Rightarrow> db \<Rightarrow> CreateTransactionRequest
       \<Rightarrow> (error + CreateTransactionResponse) \<times> db" where
  "TransactionService_CreateTransaction f st req =
     (case CreateTransactionRequest_Validate req of
        Some (ValidationError fld msg) \<Rightarrow> (Inl (ServiceError ErrCodeValidation msg), st)
      | Some err \<Rightarrow> (Inl err, st)
      | None \<Rightarrow>
          (if f BeginTx then (Inl (StorageError ''failed to begin transaction''), st)
           else (case transfer_in_tx f st req of
                   Inl err \<Rightarrow> (Inl err, st)
                 | Inr (transaction, tx) \<Rightarrow>
                     (if f CommitTx
                      then (Inl (StorageError ''failed to commit transaction''), st)
                      else (Inr \<lparr>resp_ID = txn_ID transaction,
                                 resp_SourceAccountID = txn_SourceAccountID transaction,
                                 resp_DestinationAccountID = txn_DestinationAccountID transaction,
                                 resp_Amount = txn_Amount transaction,
                                 resp_Reference = txn_Reference transaction,
                                 resp_Status = TransactionStatusCompleted,
                                 resp_CreatedAt = txn_CreatedAt transaction\<rparr>, tx)))))"

text \<open>
  \<open>BulkTransferRequest.Validate\<close>: the loop over the elements, from index \<open>i\<close>. The field
  name is built with \<open>string(rune(i))\<close>, the character with code point \<open>i\<close>.
\<close>

fun validate_transfers :: "nat \<Rightarrow> CreateTransactionRequest list \<Rightarrow> error option" where
  "validate_transfers i [] = None"
| "validate_transfers i (transfer # rest) =
     (case CreateTransactionRequest_Validate transfer of
        Some (ValidationError fld msg) \<Rightarrow>
          Some (ValidationError (''transfers['' @ [char_of i] @ ''].'' @ fld) msg)
      | Some err \<Rightarrow> Some err
      | None \<Rightarrow> validate_transfers (Suc i) rest)"

definition BulkTransferRequest_Validate :: "CreateTransactionRequest list \<Rightarrow> error option" where
  "BulkTransferRequest_Validate transfers =
     (if length transfers = 0
      then Some (ValidationError ''transfers'' ''at least one transfer is required'')
      else if 100 < length transfers
      then Some (ValidationError ''transfers''
                   ''cannot process more than 100 transfers at once'')
      else validate_transfers 0 transfers)"

text \<open>
  \<open>ProcessBulkTransfers\<close>, lines 160--177: the loop over the elements, from index \<open>i\<close>.
  \<open>fs j\<close> are the driver faults during the call for element \<open>j\<close>.
\<close>

fun process_transfers ::
    "(nat \<Rightarrow> faults) \<Rightarrow> nat \<Rightarrow> CreateTransactionRequest list \<Rightarrow> BulkTransferResponse \<Rightarrow> db
       \<Rightarrow> BulkTransferResponse \<times> db" where
  "process_transfers fs i [] response st = (response, st)"
| "process_transfers fs i (transferReq # rest) response st =
     (case TransactionService_CreateTransaction (fs i) st transferReq of
        (Inl err, st') \<Rightarrow>
          process_transfers fs (Suc i) rest
            (response\<lparr>Failed := Failed response @
               [\<lparr>Index = i, Error = error_string err,
                 Code = (case err of ServiceError code msg \<Rightarrow> code
                                   | _ \<Rightarrow> ErrCodeInternalError)\<rparr>]\<rparr>) st'
      | (Inr transferResp, st') \<Rightarrow>
          process_transfers fs (Suc i) rest
            (response\<lparr>Transfers := Transfers response @ [transferResp]\<rparr>) st')"

text \<open>\<open>TransactionService.ProcessBulkTransfers\<close>; the request is its list \<open>Transfers\<close>.\<close>

definition TransactionService_ProcessBulkTransfers ::
    "(nat \<Rightarrow> faults) \<Rightarrow> db \<Rightarrow> CreateTransactionRequest list
       \<Rightarrow> (error + BulkTransferResponse) \<times> db" where
  "TransactionService_ProcessBulkTransfers fs st transfers =
     (case BulkTransferRequest_Validate transfers of
        Some err \<Rightarrow> (Inl err, st)
      | None \<Rightarrow>
          (case process_transfers fs 0 transfers \<lparr>Transfers = [], Failed = []\<rparr> st of
             (response, st') \<Rightarrow> (Inr response, st')))"

text \<open>
  \<open>TransactionService.GetAccountTransactions\<close>; Go's \<open>int\<close> as an integer (the limit and
  the offset are only compared).
\<close>

definition TransactionService_GetAccountTransactions ::
    "bool \<Rightarrow> bool \<Rightarrow> db \<Rightarrow> uuid \<Rightarrow> int \<Rightarrow> int \<Rightarrow> error + Transaction list" where
  "TransactionService_GetAccountTransactions fault_exists fault st accountID limit offset =
     (case AccountRepository_Exists fault_exists st accountID of
        Inl err \<Rightarrow> Inl err
      | Inr exists \<Rightarrow>
          if exists
          then TransactionRepository_GetAccountTransactions fault st accountID
                 (if limit \<le> 0 \<or> 100 < limit then 20 else limit)
                 (if offset < 0 then 0 else offset)
          else Inl (ServiceError ErrCodeNotFound ''Account not found''))"

section \<open>HTTP handlers\<close>

text \<open>An HTTP response: the status code and the JSON document written.\<close>

datatype payload =
    ErrorPayload string ErrCode
  | TransferPayload CreateTransactionResponse
  | BulkPayload BulkTransferResponse
  | TransactionsPayload uuid "Transaction list" int int

type_synonym http_response = "nat \<times> payload"

text \<open>\<open>handleServiceError\<close> with \<open>writeErrorResponse\<close>.\<close>

definition handleServiceError :: "error \<Rightarrow> http_response" where
  "handleServiceError err =
     (case err of
        ServiceError code msg \<Rightarrow>
          (case code of
             ErrCodeNotFound \<Rightarrow> (404, ErrorPayload msg code)
           | ErrCodeValidation \<Rightarrow> (400, ErrorPayload msg code)
           | ErrCodeInvalidInput \<Rightarrow> (400, ErrorPayload msg code)
           | ErrCodeInsufficientFunds \<Rightarrow> (422, ErrorPayload msg code)
           | ErrCodeConflict \<Rightarrow> (409, ErrorPayload msg code)
           | _ \<Rightarrow> (500, ErrorPayload ''Internal server error'' ErrCodeInternalError))
      | _ \<Rightarrow> (500, ErrorPayload ''Internal server error'' ErrCodeInternalError))"

text \<open>
  A query parameter as \<open>parseQueryParams\<close> sees it: empty (or absent), a string that
  \<open>strconv.Atoi\<close> refuses, or a number.
\<close>

datatype query_value = Empty | Malformed | Number int

definition parseQueryParams :: "query_value \<Rightarrow> query_value \<Rightarrow> string + (int \<times> int)" where
  "parseQueryParams limitStr offsetStr =
     (case (case limitStr of
              Empty \<Rightarrow> Some 20
            | Malformed \<Rightarrow> None
            | Number limit \<Rightarrow> if limit \<le> 0 \<or> 100 < limit then None else Some limit) of
        None \<Rightarrow> Inl ''invalid limit parameter''
      | Some limit \<Rightarrow>
          (case (case offsetStr of
                   Empty \<Rightarrow> Some 0
                 | Malformed \<Rightarrow> None
                 | Number offset \<Rightarrow> if offset < 0 then None else Some offset) of
             None \<Rightarrow> Inl ''invalid offset parameter''
           | Some offset \<Rightarrow> Inr (limit, offset)))"

text \<open>
  The body of a request to \<open>POST /v1/transactions\<close> as the handler classifies it: not
  JSON; a JSON object with the key \<open>transfers\<close>, which unmarshals into a
  \<open>BulkTransferRequest\<close> or fails to; any other JSON value, which unmarshals into a
  \<open>CreateTransactionRequest\<close> or fails to.
\<close>

datatype json_body =
    InvalidJSON
  | BulkJSON "CreateTransactionRequest list option"
  | SingleJSON "CreateTransactionRequest option"

record http_request =
  Method :: string
  IdempotencyKey :: string
  ContentType :: string
  Body :: json_body

text \<open>\<open>strings.Contains\<close>.\<close>

fun strings_Contains :: "string \<Rightarrow> string \<Rightarrow> bool" where
  "strings_Contains [] substr = (substr = [])"
| "strings_Contains (c # cs) substr =
     (take (length substr) (c # cs) = substr \<or> strings_Contains cs substr)"

definition handleSingleTransfer ::
    "faults \<Rightarrow> db \<Rightarrow> CreateTransactionRequest option \<Rightarrow> http_response \<times> db" where
  "handleSingleTransfer f st body =
     (case body of
        None \<Rightarrow> ((400, ErrorPayload ''Invalid transaction request'' ErrCodeInvalidInput), st)
      | Some req \<Rightarrow>
          (case TransactionService_CreateTransaction f st req of
             (Inl err, st') \<Rightarrow> (handleServiceError err, st')
           | (Inr response, st') \<Rightarrow> ((201, TransferPayload response), st')))"

definition handleBulkTransfer ::
    "(nat \<Rightarrow> faults) \<Rightarrow> db \<Rightarrow> CreateTransactionRequest list option
       \<Rightarrow> http_response \<times> db" where
  "handleBulkTransfer fs st body =
     (case body of
        None \<Rightarrow> ((400, ErrorPayload ''Invalid bulk transfer request'' ErrCodeInvalidInput), st)
      | Some req \<Rightarrow>
          (case TransactionService_ProcessBulkTransfers fs st req of
             (Inl err, st') \<Rightarrow> (handleServiceError err, st')
           | (Inr response, st') \<Rightarrow>
               ((if 0 < length (Failed response)
                 then (if length (Transfers response) = 0 then 400 else 207)
                 else 201, BulkPayload response), st')))"

text \<open>
  \<open>TransactionHandler.CreateTransaction\<close>. The header \<open>Idempotency-Key\<close> is read into a
  variable that is not used (\<open>_ = idempotencyKey // TODO: Implement idempotency logic\<close>).
\<close>

definition TransactionHandler_CreateTransaction ::
    "(nat \<Rightarrow> faults) \<Rightarrow> db \<Rightarrow> http_request \<Rightarrow> http_response \<times> db" where
  "TransactionHandler_CreateTransaction fs st r =
     (if Method r \<noteq> ''POST''
      then ((405, ErrorPayload ''Method not allowed'' ErrCodeInvalidInput), st)
      else
        let idempotencyKey = IdempotencyKey r in
        if strings_Contains (ContentType r) ''application/json''
        then (case Body r of
                InvalidJSON \<Rightarrow> ((400, ErrorPayload ''Invalid JSON'' ErrCodeInvalidInput), st)
              | BulkJSON body \<Rightarrow> handleBulkTransfer fs st body
              | SingleJSON body \<Rightarrow> handleSingleTransfer (fs 0) st body)
        else ((400, ErrorPayload ''Content-Type must be application/json''
                      ErrCodeInvalidInput), st))"

text \<open>
  \<open>TransactionHandler.GetAccountTransactions\<close>, after the account id has been parsed from
  the path.
\<close>

definition TransactionHandler_GetAccountTransactions ::
    "bool \<Rightarrow> bool \<Rightarrow> db \<Rightarrow> uuid \<Rightarrow> query_value \<Rightarrow> query_value \<Rightarrow> http_response" where
  "TransactionHandler_GetAccountTransactions fault_exists fault st accountID limitStr offsetStr =
     (case parseQueryParams limitStr offsetStr of
        Inl msg \<Rightarrow> (400, ErrorPayload msg ErrCodeInvalidInput)
      | Inr (limit, offset) \<Rightarrow>
          (case TransactionService_GetAccountTransactions fault_exists fault st accountID
                  limit offset of
             Inl err \<Rightarrow> handleServiceError err
           | Inr txns \<Rightarrow> (200, TransactionsPayload accountID txns limit offset)))"

section \<open>Notions used in the statements\<close>



text \<open>
  The row that lines 94--129 of \<open>CreateTransaction\<close> leave in \<open>transactions\<close> for a
  request, when they succeed on the database \<open>st\<close>.
\<close>

definition completed_row :: "db \<Rightarrow> CreateTransactionRequest \<Rightarrow> Transaction" where
  "completed_row st req =
     \<lparr>txn_ID = next_uuid st,
      txn_SourceAccountID = SourceAccountID req,
      txn_DestinationAccountID = DestinationAccountID req,
      txn_Amount = Amount req,
      txn_Reference = Reference req,
      txn_Status = TransactionStatusCompleted,
      txn_CreatedAt = now st,
      txn_CompletedAt = Some (now st)\<rparr>"

text \<open>The request fields that a response repeats.\<close>

definition request_of :: "CreateTransactionResponse \<Rightarrow> CreateTransactionRequest" where
  "request_of resp =
     \<lparr>SourceAccountID = resp_SourceAccountID resp,
      DestinationAccountID = resp_DestinationAccountID resp,
      Amount = resp_Amount resp,
      Reference = resp_Reference resp\<rparr>"

text \<open>
  The database after the calls of \<open>CreateTransaction\<close> for the elements of a list, one
  after the other from index \<open>i\<close>, each on the database the previous call returned.
\<close>

fun run_elements ::
    "(nat \<Rightarrow> faults) \<Rightarrow> nat \<Rightarrow> CreateTransactionRequest list \<Rightarrow> db \<Rightarrow> db" where
  "run_elements fs i [] st = st"
| "run_elements fs i (r # rs) st =
     run_elements fs (Suc i) rs (snd (TransactionService_CreateTransaction (fs i) st r))"



section \<open>Example data\<close>

text \<open>
  The database of the demonstration script: account 1 holds 1000.00, account 2 holds
  500.50, no transfer has been made.
\<close>

definition demo_db :: db where
  "demo_db =
     \<lparr>accounts = [1 \<mapsto> \<lparr>acc_ID = 1, Balance = 1000, acc_CreatedAt = 10, UpdatedAt = 10\<rparr>,
                  2 \<mapsto> \<lparr>acc_ID = 2, Balance = 1001 / 2, acc_CreatedAt = 20, UpdatedAt = 20\<rparr>],
      transactions = [],
      idempotency_keys = Map.empty,
      now = 100,
      next_uuid = 3\<rparr>"

text \<open>The transfer of the demonstration script: 150.25 from account 1 to account 2.\<close>

definition demo_transfer :: CreateTransactionRequest where
  "demo_transfer =
     \<lparr>SourceAccountID = Some 1, DestinationAccountID = 2, Amount = 601 / 4,
      Reference = Some ''demo-payment''\<rparr>"

text \<open>The database after the transfer, and the response to it.\<close>

definition demo_db_after :: db where
  "demo_db_after =
     \<lparr>accounts = [1 \<mapsto> \<lparr>acc_ID = 1, Balance = 3399 / 4, acc_CreatedAt = 10, UpdatedAt = 100\<rparr>,
                  2 \<mapsto> \<lparr>acc_ID = 2, Balance = 2603 / 4, acc_CreatedAt = 20, UpdatedAt = 100\<rparr>],
      transactions =
        [\<lparr>txn_ID = 3, txn_SourceAccountID = Some 1, txn_DestinationAccountID = 2,
          txn_Amount = 601 / 4, txn_Reference = Some ''demo-payment'',
          txn_Status = TransactionStatusCompleted, txn_CreatedAt = 100,
          txn_CompletedAt = Some 100\<rparr>],
      idempotency_keys = Map.empty,
      now = 100,
      next_uuid = 4\<rparr>"

definition demo_response :: CreateTransactionResponse where
  "demo_response =
     \<lparr>resp_ID = 3, resp_SourceAccountID = Some 1, resp_DestinationAccountID = 2,
      resp_Amount = 601 / 4, resp_Reference = Some ''demo-payment'',
      resp_Status = TransactionStatusCompleted, resp_CreatedAt = 100\<rparr>"

text \<open>Requests that fail: more than account 2 holds, and a zero amount.\<close>

definition demo_overdraft :: CreateTransactionRequest where
  "demo_overdraft =
     \<lparr>SourceAccountID = Some 2, DestinationAccountID = 1, Amount = 5000, Reference = None\<rparr>"

definition demo_zero_amount :: CreateTransactionRequest where
  "demo_zero_amount =
     \<lparr>SourceAccountID = Some 2, DestinationAccountID = 1, Amount = 0, Reference = None\<rparr>"

text \<open>A deposit of 100.00 to account 1, and the database and response after it.\<close>

definition demo_deposit :: CreateTransactionRequest where
  "demo_deposit =
     \<lparr>SourceAccountID = None, DestinationAccountID = 1, Amount = 100, Reference = None\<rparr>"

definition demo_db_final :: db where
  "demo_db_final =
     \<lparr>accounts = [1 \<mapsto> \<lparr>acc_ID = 1, Balance = 3799 / 4, acc_CreatedAt = 10, UpdatedAt = 100\<rparr>,
                  2 \<mapsto> \<lparr>acc_ID = 2, Balance = 2603 / 4, acc_CreatedAt = 20, UpdatedAt = 100\<rparr>],
      transactions =
        [\<lparr>txn_ID = 3, txn_SourceAccountID = Some 1, txn_DestinationAccountID = 2,
          txn_Amount = 601 / 4, txn_Reference = Some ''demo-payment'',
          txn_Status = TransactionStatusCompleted, txn_CreatedAt = 100,
          txn_CompletedAt = Some 100\<rparr>,
         \<lparr>txn_ID = 4, txn_SourceAccountID = None, txn_DestinationAccountID = 1,
          txn_Amount = 100, txn_Reference = None,
          txn_Status = TransactionStatusCompleted, txn_CreatedAt = 100,
          txn_CompletedAt = Some 100\<rparr>],
      idempotency_keys = Map.empty,
      now = 100,
      next_uuid = 5\<rparr>"

definition demo_deposit_response :: CreateTransactionResponse where
  "demo_deposit_response =
     \<lparr>resp_ID = 4, resp_SourceAccountID = None, resp_DestinationAccountID = 1,
      resp_Amount = 100, resp_Reference = None,
      resp_Status = TransactionStatusCompleted, resp_CreatedAt = 100\<rparr>"

text \<open>
  Two bulk requests of three elements: one whose second element has insufficient funds,
  one whose second element has a zero amount; and the response to the first.
\<close>

definition demo_batch :: "CreateTransactionRequest list" where
  "demo_batch = [demo_transfer, demo_overdraft, demo_deposit]"

definition demo_batch_invalid :: "CreateTransactionRequest list" where
  "demo_batch_invalid = [demo_transfer, demo_zero_amount, demo_deposit]"

definition demo_bulk_response :: BulkTransferResponse where
  "demo_bulk_response =
     \<lparr>Transfers = [demo_response, demo_deposit_response],
      Failed = [\<lparr>Index = 1, Error = ''Insufficient funds in source account'',
                 Code = ErrCodeInsufficientFunds\<rparr>]\<rparr>"



text \<open>
  The database after the transfer, at a later time, holding a completed idempotency record
  under the key hash of the request's body; and the HTTP request that repeats the
  transfer with its idempotency key.
\<close>

definition demo_key_hash :: string where
  "demo_key_hash = ''5f2b9c''"

definition demo_idempotency_record :: IdempotencyRecord where
  "demo_idempotency_record =
     \<lparr>KeyHash = demo_key_hash, RequestBody = ''demo-transfer'',
      ResponseBody = Some ''demo-response'', ResponseStatus = Some 201,
      idem_CreatedAt = 100, ExpiresAt = 100 + interval_24_hours\<rparr>"

definition demo_db_replay :: db where
  "demo_db_replay =
     demo_db_after\<lparr>idempotency_keys := [demo_key_hash \<mapsto> demo_idempotency_record],
                   now := 200\<rparr>"

definition demo_http_request :: http_request where
  "demo_http_request =
     \<lparr>Method = ''POST'', IdempotencyKey = ''order-42'', ContentType = ''application/json'',
      Body = SingleJSON (Some demo_transfer)\<rparr>"

text \<open>A database in which account 1 has received 25 deposits.\<close>

definition demo_history_db :: db where
  "demo_history_db =
     demo_db\<lparr>transactions :=
       map (\<lambda>i. \<lparr>txn_ID = 100 + i, txn_SourceAccountID = None,
                  txn_DestinationAccountID = 1, txn_Amount = 1, txn_Reference = None,
                  txn_Status = TransactionStatusCompleted, txn_CreatedAt = i,
                  txn_CompletedAt = Some i\<rparr>) [0..<25]\<rparr>"

section \<open>Properties of the repositories and of a single transfer\<close>


lemma check_source_None:
  assumes "check_source f tx req = None" and "SourceAccountID req = Some src"
  shows "\<exists>sa. accounts tx src = Some sa \<and> Amount req \<le> Balance sa"
  using assms
  by (auto simp: check_source_def AccountRepository_GetBalanceForUpdate_def
      split: option.splits sum.splits if_splits)

lemma debit_source_Inr:
  assumes "debit_source f tx req = Inr tx'"
  shows "(case SourceAccountID req of
            None \<Rightarrow> tx' = tx
          | Some src \<Rightarrow> \<exists>sa. accounts tx src = Some sa \<and> Amount req \<le> Balance sa \<and>
               tx' = tx\<lparr>accounts := (accounts tx)(src \<mapsto>
                         sa\<lparr>Balance := Balance sa - Amount req, UpdatedAt := now tx\<rparr>)\<rparr>)"
  using assms
  by (auto simp: debit_source_def AccountRepository_GetBalanceForUpdate_def
      AccountRepository_UpdateBalance_def split: option.splits sum.splits if_splits)

lemma credit_destination_Inr:
  assumes "credit_destination f tx req = Inr tx'"
  shows "\<exists>da. accounts tx (DestinationAccountID req) = Some da \<and>
           0 \<le> Balance da + Amount req \<and>
           tx' = tx\<lparr>accounts := (accounts tx)(DestinationAccountID req \<mapsto>
                     da\<lparr>Balance := Balance da + Amount req, UpdatedAt := now tx\<rparr>)\<rparr>"
  using assms
  by (auto simp: credit_destination_def AccountRepository_GetBalanceForUpdate_def
      AccountRepository_UpdateBalance_def split: option.splits sum.splits if_splits)

lemma TransactionRepository_Create_Inr:
  assumes "TransactionRepository_Create fault tx req = Inr (t, tx')"
  shows "0 < Amount req \<and> SourceAccountID req \<noteq> Some (DestinationAccountID req) \<and>
         next_uuid tx \<notin> txn_ID ` set (transactions tx) \<and>
         t = \<lparr>txn_ID = next_uuid tx,
              txn_SourceAccountID = SourceAccountID req,
              txn_DestinationAccountID = DestinationAccountID req,
              txn_Amount = Amount req,
              txn_Reference = Reference req,
              txn_Status = TransactionStatusPending,
              txn_CreatedAt = now tx,
              txn_CompletedAt = None\<rparr> \<and>
         tx' = tx\<lparr>transactions := transactions tx @ [t], next_uuid := Suc (next_uuid tx)\<rparr>"
  using assms
  by (auto simp: TransactionRepository_Create_def Let_def split: if_splits)


lemma map_other_rows:
  "k \<notin> txn_ID ` set xs \<Longrightarrow> map (\<lambda>t. if txn_ID t = k then g t else t) xs = xs"
  by (induction xs) auto

lemma TransactionRepository_UpdateStatus_Inr:
  assumes "TransactionRepository_UpdateStatus fault tx k TransactionStatusCompleted = Inr tx'"
    and "transactions tx = xs @ [t]" and "txn_ID t = k" and "k \<notin> txn_ID ` set xs"
  shows "tx' = tx\<lparr>transactions := xs @ [t\<lparr>txn_Status := TransactionStatusCompleted,
                                          txn_CompletedAt := Some (now tx)\<rparr>]\<rparr>"
  using assms
  by (auto simp: TransactionRepository_UpdateStatus_def map_other_rows split: if_splits)

lemma transfer_in_tx_Inr:
  assumes "transfer_in_tx f tx req = Inr (t, tx')"
  shows "\<exists>da. accounts tx (DestinationAccountID req) = Some da \<and>
           0 < Amount req \<and>
           0 \<le> Balance da + Amount req \<and>
           SourceAccountID req \<noteq> Some (DestinationAccountID req) \<and>
           (SourceAccountID req = None \<longrightarrow>
              accounts tx' = (accounts tx)(DestinationAccountID req \<mapsto>
                 da\<lparr>Balance := Balance da + Amount req, UpdatedAt := now tx\<rparr>)) \<and>
           (\<forall>src. SourceAccountID req = Some src \<longrightarrow>
              (\<exists>sa. accounts tx src = Some sa \<and> Amount req \<le> Balance sa \<and>
                 accounts tx' = (accounts tx)
                   (src \<mapsto> sa\<lparr>Balance := Balance sa - Amount req, UpdatedAt := now tx\<rparr>,
                    DestinationAccountID req \<mapsto>
                      da\<lparr>Balance := Balance da + Amount req, UpdatedAt := now tx\<rparr>))) \<and>
           transactions tx' = transactions tx @ [completed_row tx req] \<and>
           t = (completed_row tx req)\<lparr>txn_Status := TransactionStatusPending,
                                       txn_CompletedAt := None\<rparr> \<and>
           idempotency_keys tx' = idempotency_keys tx \<and>
           now tx' = now tx \<and> next_uuid tx' = Suc (next_uuid tx)"
proof -
  from assms obtain t1 tx1 tx2 tx3 where
    cs: "check_source f tx req = None"
    and cr: "TransactionRepository_Create (f InsertTransaction) tx req = Inr (t1, tx1)"
    and db: "debit_source f tx1 req = Inr tx2"
    and cd: "credit_destination f tx2 req = Inr tx3"
    and us: "TransactionRepository_UpdateStatus (f MarkCompleted) tx3 (txn_ID t1)
               TransactionStatusCompleted = Inr tx'"
    and tt: "t = t1"
    by (auto simp: transfer_in_tx_def split: option.splits sum.splits if_splits prod.splits)
  note c = TransactionRepository_Create_Inr [OF cr]
  note d = debit_source_Inr [OF db]
  obtain da2 where da2: "accounts tx2 (DestinationAccountID req) = Some da2"
    "0 \<le> Balance da2 + Amount req"
    "tx3 = tx2\<lparr>accounts := (accounts tx2)(DestinationAccountID req \<mapsto>
                     da2\<lparr>Balance := Balance da2 + Amount req, UpdatedAt := now tx2\<rparr>)\<rparr>"
    using credit_destination_Inr [OF cd] by blast
  have tr3: "transactions tx3 = transactions tx @ [t1]"
    using c d da2 by (auto split: option.splits)
  have now3: "now tx3 = now tx"
    using c d da2 by (auto split: option.splits)
  have u: "tx' = tx3\<lparr>transactions := transactions tx @
             [t1\<lparr>txn_Status := TransactionStatusCompleted, txn_CompletedAt := Some (now tx3)\<rparr>]\<rparr>"
    using TransactionRepository_UpdateStatus_Inr [OF us tr3] c by simp
  show ?thesis
  proof (cases "SourceAccountID req")
    case None
    then have "tx2 = tx1" using d by simp
    then show ?thesis
      using None c da2 u now3 tt by (auto simp: completed_row_def)
  next
    case (Some src)
    then obtain sa where sa: "accounts tx1 src = Some sa" "Amount req \<le> Balance sa"
      "tx2 = tx1\<lparr>accounts := (accounts tx1)(src \<mapsto>
                         sa\<lparr>Balance := Balance sa - Amount req, UpdatedAt := now tx1\<rparr>)\<rparr>"
      using d by auto
    have ne: "src \<noteq> DestinationAccountID req" using c Some by auto
    show ?thesis
      using Some c da2 u now3 tt sa ne by (auto simp: completed_row_def)
  qed
qed


lemma CreateTransaction_Inr:
  assumes "TransactionService_CreateTransaction f st req = (Inr resp, st')"
  shows "CreateTransactionRequest_Validate req = None \<and>
         (\<exists>t. transfer_in_tx f st req = Inr (t, st') \<and>
              resp = \<lparr>resp_ID = txn_ID t,
                      resp_SourceAccountID = txn_SourceAccountID t,
                      resp_DestinationAccountID = txn_DestinationAccountID t,
                      resp_Amount = txn_Amount t,
                      resp_Reference = txn_Reference t,
                      resp_Status = TransactionStatusCompleted,
                      resp_CreatedAt = txn_CreatedAt t\<rparr>)"
  using assms
  by (auto simp: TransactionService_CreateTransaction_def
      split: option.splits error.splits if_splits sum.splits prod.splits)













lemma demo_transfer_result:
  "TransactionService_CreateTransaction no_faults demo_db demo_transfer
     = (Inr demo_response, demo_db_after)"
  by (simp add: TransactionService_CreateTransaction_def CreateTransactionRequest_Validate_def no_faults_def
      transfer_in_tx_def check_source_def debit_source_def credit_destination_def
      AccountRepository_GetBalanceForUpdate_def AccountRepository_UpdateBalance_def
      TransactionRepository_Create_def TransactionRepository_UpdateStatus_def
      demo_db_def demo_transfer_def demo_db_after_def demo_response_def Let_def)



section \<open>Conservation and non-negative balances\<close>



section \<open>Historical balance\<close>

text \<open>
  C10. There is an account that exists for which a historical balance query with a
  timestamp strictly earlier than the row's \<open>updated_at\<close> returns \<open>NOT_FOUND\<close> with the
  message "Account not found" instead of a balance. It is so for every existing account
  and every such timestamp, when the database answers the query.
\<close>

theorem GetAccountBalance_before_update_not_found:
  assumes "accounts st ident = Some account"
    and "ts < UpdatedAt account"
  shows "AccountRepository_Exists False st ident = Inr True
       \<and> AccountService_GetAccountBalance False st ident (Some ts)
           = Inl (ServiceError ErrCodeNotFound ''Account not found'')"
  using assms
  by (simp add: AccountRepository_Exists_def AccountService_GetAccountBalance_def
      AccountRepository_GetBalanceAt_def)

theorem GetAccountBalance_before_update_not_found_witness:
  "accounts demo_db_after 1
     = Some \<lparr>acc_ID = 1, Balance = 3399 / 4, acc_CreatedAt = 10, UpdatedAt = 100\<rparr>
   \<and> (50 :: nat) < 100
   \<and> AccountRepository_Exists False demo_db_after 1 = Inr True
   \<and> AccountService_GetAccountBalance False demo_db_after 1 (Some 50)
       = Inl (ServiceError ErrCodeNotFound ''Account not found'')"
  using GetAccountBalance_before_update_not_found [of demo_db_after 1
      "\<lparr>acc_ID = 1, Balance = 3399 / 4, acc_CreatedAt = 10, UpdatedAt = 100\<rparr>" 50]
  by (simp add: demo_db_after_def)

section \<open>Insufficient funds\<close>

text \<open>
  C3. A request that passes validation, whose source account is present, exists and holds
  strictly less than the requested amount, is answered with \<open>INSUFFICIENT_FUNDS\<close> when
  the database opens the transaction and answers the locked read of the source; the
  database returned is the one given, so no balance has changed and no transfer row has
  been added.
\<close>

theorem insufficient_funds_leaves_database_unchanged:
  assumes "CreateTransactionRequest_Validate req = None"
    and "SourceAccountID req = Some src"
    and "accounts st src = Some sa"
    and "Balance sa < Amount req"
    and "\<not> f BeginTx" and "\<not> f LockSource"
  shows "TransactionService_CreateTransaction f st req
       = (Inl (ServiceError ErrCodeInsufficientFunds ''Insufficient funds in source account''),
          st)"
proof -
  have "check_source f st req
      = Some (ServiceError ErrCodeInsufficientFunds ''Insufficient funds in source account'')"
    using assms(2-4,6)
    by (simp add: check_source_def AccountRepository_GetBalanceForUpdate_def)
  then have "transfer_in_tx f st req
      = Inl (ServiceError ErrCodeInsufficientFunds ''Insufficient funds in source account'')"
    by (simp add: transfer_in_tx_def)
  then show ?thesis
    using assms(1,5) by (simp add: TransactionService_CreateTransaction_def)
qed

theorem insufficient_funds_leaves_database_unchanged_witness:
  "CreateTransactionRequest_Validate demo_overdraft = None
   \<and> SourceAccountID demo_overdraft = Some 2
   \<and> accounts demo_db 2 = Some \<lparr>acc_ID = 2, Balance = 1001 / 2, acc_CreatedAt = 20, UpdatedAt = 20\<rparr>
   \<and> (1001 / 2 :: rat) < Amount demo_overdraft
   \<and> TransactionService_CreateTransaction no_faults demo_db demo_overdraft
       = (Inl (ServiceError ErrCodeInsufficientFunds ''Insufficient funds in source account''),
          demo_db)"
  using insufficient_funds_leaves_database_unchanged [of demo_overdraft 2 demo_db
      "\<lparr>acc_ID = 2, Balance = 1001 / 2, acc_CreatedAt = 20, UpdatedAt = 20\<rparr>" no_faults]
  by (simp add: demo_overdraft_def demo_db_def no_faults_def CreateTransactionRequest_Validate_def)

section \<open>Validation\<close>



section \<open>The balance constraint of the store\<close>



section \<open>Bulk transfers\<close>

lemma CreateTransaction_request_of:
  assumes "TransactionService_CreateTransaction f st req = (Inr resp, st')"
  shows "request_of resp = req"
proof -
  from CreateTransaction_Inr [OF assms] obtain t where
    t: "transfer_in_tx f st req = Inr (t, st')"
    and r: "resp = \<lparr>resp_ID = txn_ID t,
                      resp_SourceAccountID = txn_SourceAccountID t,
                      resp_DestinationAccountID = txn_DestinationAccountID t,
                      resp_Amount = txn_Amount t,
                      resp_Reference = txn_Reference t,
                      resp_Status = TransactionStatusCompleted,
                      resp_CreatedAt = txn_CreatedAt t\<rparr>"
    by (elim exE conjE)
  from transfer_in_tx_Inr [OF t] have
    "t = (completed_row st req)\<lparr>txn_Status := TransactionStatusPending,
                                  txn_CompletedAt := None\<rparr>"
    by (elim exE conjE)
  then show ?thesis
    by (simp add: r request_of_def completed_row_def)
qed

lemma process_transfers_outcomes:
  assumes "process_transfers fs i reqs resp0 st = (resp, st')"
  shows "\<exists>succ fails.
           Transfers resp = Transfers resp0 @ succ
         \<and> Failed resp = Failed resp0 @ fails
         \<and> length succ + length fails = length reqs
         \<and> sorted_wrt (<) (map Index fails)
         \<and> (\<forall>e \<in> set fails. i \<le> Index e \<and> Index e < i + length reqs)
         \<and> map request_of succ = nths reqs {j. i + j \<notin> Index ` set fails}
         \<and> (\<forall>j < length reqs.
               (i + j \<in> Index ` set fails)
               = isl (fst (TransactionService_CreateTransaction (fs (i + j))
                            (run_elements fs i (take j reqs) st) (reqs ! j))))
         \<and> st' = run_elements fs i reqs st"
  using assms
proof (induction reqs arbitrary: i resp0 st)
  case Nil
  then show ?case by simp
next
  case (Cons r rs)
  obtain res st1 where c: "TransactionService_CreateTransaction (fs i) st r = (res, st1)"
    by (cases "TransactionService_CreateTransaction (fs i) st r")
  show ?case
  proof (cases res)
    case (Inl err)
    define e where "e = \<lparr>Index = i, Error = error_string err,
        Code = (case err of ServiceError code msg \<Rightarrow> code | _ \<Rightarrow> ErrCodeInternalError)\<rparr>"
    have "process_transfers fs (Suc i) rs (resp0\<lparr>Failed := Failed resp0 @ [e]\<rparr>) st1
            = (resp, st')"
      using Cons.prems c Inl by (simp add: e_def)
    from Cons.IH [OF this] obtain succ fails where
      s: "Transfers resp = Transfers resp0 @ succ"
      and f: "Failed resp = Failed resp0 @ [e] @ fails"
      and l: "length succ + length fails = length rs"
      and so: "sorted_wrt (<) (map Index fails)"
      and b: "\<forall>e \<in> set fails. Suc i \<le> Index e \<and> Index e < Suc i + length rs"
      and n: "map request_of succ = nths rs {j. Suc i + j \<notin> Index ` set fails}"
      and ex: "\<forall>j < length rs.
               (Suc i + j \<in> Index ` set fails)
               = isl (fst (TransactionService_CreateTransaction (fs (Suc i + j))
                            (run_elements fs (Suc i) (take j rs) st1) (rs ! j)))"
      and fin: "st' = run_elements fs (Suc i) rs st1"
      by auto
    have ie: "Index e = i" by (simp add: e_def)
    have set_eq: "{j. i + Suc j \<notin> Index ` set (e # fails)} = {j. Suc i + j \<notin> Index ` set fails}"
      using ie by auto
    have "map request_of succ = nths (r # rs) {j. i + j \<notin> Index ` set (e # fails)}"
      using n ie by (simp add: nths_Cons set_eq)
    moreover have "sorted_wrt (<) (map Index (e # fails))"
      using so b ie by auto
    moreover have "\<forall>x \<in> set (e # fails). i \<le> Index x \<and> Index x < i + length (r # rs)"
      using b ie by auto
    moreover have "\<forall>j < length (r # rs).
               (i + j \<in> Index ` set (e # fails))
               = isl (fst (TransactionService_CreateTransaction (fs (i + j))
                            (run_elements fs i (take j (r # rs)) st) ((r # rs) ! j)))"
    proof (intro allI impI)
      fix j assume j: "j < length (r # rs)"
      show "(i + j \<in> Index ` set (e # fails))
               = isl (fst (TransactionService_CreateTransaction (fs (i + j))
                            (run_elements fs i (take j (r # rs)) st) ((r # rs) ! j)))"
      proof (cases j)
        case 0
        then show ?thesis using c Inl ie by simp
      next
        case (Suc k)
        then have "k < length rs" using j by simp
        with ex have "(Suc i + k \<in> Index ` set fails)
               = isl (fst (TransactionService_CreateTransaction (fs (Suc i + k))
                            (run_elements fs (Suc i) (take k rs) st1) (rs ! k)))" by blast
        then show ?thesis using Suc c ie by simp
      qed
    qed
    moreover have "st' = run_elements fs i (r # rs) st"
      using fin c by simp
    ultimately show ?thesis
      using s f l by (intro exI [of _ succ] exI [of _ "e # fails"]) simp
  next
    case (Inr tr)
    have "process_transfers fs (Suc i) rs (resp0\<lparr>Transfers := Transfers resp0 @ [tr]\<rparr>) st1
            = (resp, st')"
      using Cons.prems c Inr by simp
    from Cons.IH [OF this] obtain succ fails where
      s: "Transfers resp = Transfers resp0 @ [tr] @ succ"
      and f: "Failed resp = Failed resp0 @ fails"
      and l: "length succ + length fails = length rs"
      and so: "sorted_wrt (<) (map Index fails)"
      and b: "\<forall>e \<in> set fails. Suc i \<le> Index e \<and> Index e < Suc i + length rs"
      and n: "map request_of succ = nths rs {j. Suc i + j \<notin> Index ` set fails}"
      and ex: "\<forall>j < length rs.
               (Suc i + j \<in> Index ` set fails)
               = isl (fst (TransactionService_CreateTransaction (fs (Suc i + j))
                            (run_elements fs (Suc i) (take j rs) st1) (rs ! j)))"
      and fin: "st' = run_elements fs (Suc i) rs st1"
      by auto
    have rq: "request_of tr = r"
      using c Inr CreateTransaction_request_of by blast
    have ni: "i \<notin> Index ` set fails" using b by force
    have "map request_of (tr # succ) = nths (r # rs) {j. i + j \<notin> Index ` set fails}"
      using n rq ni by (simp add: nths_Cons)
    moreover have "\<forall>x \<in> set fails. i \<le> Index x \<and> Index x < i + length (r # rs)"
      using b by auto
    moreover have "\<forall>j < length (r # rs).
               (i + j \<in> Index ` set fails)
               = isl (fst (TransactionService_CreateTransaction (fs (i + j))
                            (run_elements fs i (take j (r # rs)) st) ((r # rs) ! j)))"
    proof (intro allI impI)
      fix j assume j: "j < length (r # rs)"
      show "(i + j \<in> Index ` set fails)
               = isl (fst (TransactionService_CreateTransaction (fs (i + j))
                            (run_elements fs i (take j (r # rs)) st) ((r # rs) ! j)))"
      proof (cases j)
        case 0
        then show ?thesis using c Inr ni by simp
      next
        case (Suc k)
        then have "k < length rs" using j by simp
        with ex have "(Suc i + k \<in> Index ` set fails)
               = isl (fst (TransactionService_CreateTransaction (fs (Suc i + k))
                            (run_elements fs (Suc i) (take k rs) st1) (rs ! k)))" by blast
        then show ?thesis using Suc c by simp
      qed
    qed
    moreover have "st' = run_elements fs i (r # rs) st"
      using fin c by simp
    ultimately show ?thesis
      using s f l so by (intro exI [of _ "tr # succ"] exI [of _ fails]) simp
  qed
qed

lemma validate_transfers_None:
  "(validate_transfers i reqs = None)
     = (\<forall>r \<in> set reqs. CreateTransactionRequest_Validate r = None)"
proof (induction reqs arbitrary: i)
  case Nil
  show ?case by simp
next
  case (Cons r rs)
  show ?case
    by (cases "CreateTransactionRequest_Validate r")
       (auto simp: Cons.IH split: error.splits)
qed

lemma Validate_is_ValidationError:
  "CreateTransactionRequest_Validate r = Some err \<Longrightarrow> \<exists>fld msg. err = ValidationError fld msg"
  by (auto simp: CreateTransactionRequest_Validate_def split: if_splits)

lemma validate_transfers_Some:
  "validate_transfers i reqs = Some err \<Longrightarrow> \<exists>fld msg. err = ValidationError fld msg"
proof (induction reqs arbitrary: i)
  case Nil
  then show ?case by simp
next
  case (Cons r rs)
  show ?case
  proof (cases "CreateTransactionRequest_Validate r")
    case None
    then show ?thesis using Cons by simp
  next
    case (Some e)
    then obtain fld msg where "e = ValidationError fld msg"
      using Validate_is_ValidationError by blast
    then show ?thesis using Cons.prems Some by auto
  qed
qed

lemma BulkTransferRequest_Validate_Some:
  "BulkTransferRequest_Validate reqs = Some err \<Longrightarrow> \<exists>fld msg. err = ValidationError fld msg"
  using validate_transfers_Some
  by (auto simp: BulkTransferRequest_Validate_def split: if_splits)

lemma demo_overdraft_result:
  "TransactionService_CreateTransaction no_faults demo_db_after demo_overdraft
     = (Inl (ServiceError ErrCodeInsufficientFunds ''Insufficient funds in source account''),
        demo_db_after)"
  by (simp add: TransactionService_CreateTransaction_def CreateTransactionRequest_Validate_def
      no_faults_def transfer_in_tx_def check_source_def
      AccountRepository_GetBalanceForUpdate_def demo_db_after_def demo_overdraft_def)

lemma demo_deposit_result:
  "TransactionService_CreateTransaction no_faults demo_db_after demo_deposit
     = (Inr demo_deposit_response, demo_db_final)"
  by (simp add: TransactionService_CreateTransaction_def CreateTransactionRequest_Validate_def
      no_faults_def transfer_in_tx_def check_source_def debit_source_def credit_destination_def
      AccountRepository_GetBalanceForUpdate_def AccountRepository_UpdateBalance_def
      TransactionRepository_Create_def TransactionRepository_UpdateStatus_def
      demo_db_after_def demo_deposit_def demo_db_final_def demo_deposit_response_def Let_def
      fun_eq_iff)

lemma demo_batch_valid: "BulkTransferRequest_Validate demo_batch = None"
  by (simp add: BulkTransferRequest_Validate_def demo_batch_def
      CreateTransactionRequest_Validate_def demo_transfer_def demo_overdraft_def
      demo_deposit_def)

lemma demo_batch_result:
  "TransactionService_ProcessBulkTransfers (\<lambda>_. no_faults) demo_db demo_batch
     = (Inr demo_bulk_response, demo_db_final)"
  by (simp add: TransactionService_ProcessBulkTransfers_def demo_batch_valid)
     (simp add: demo_batch_def demo_transfer_result demo_overdraft_result
        demo_deposit_result demo_bulk_response_def)

lemma BulkTransferRequest_Validate_None:
  "(BulkTransferRequest_Validate reqs = None)
     = (0 < length reqs \<and> length reqs \<le> 100
        \<and> (\<forall>r \<in> set reqs. CreateTransactionRequest_Validate r = None))"
  by (auto simp: BulkTransferRequest_Validate_def validate_transfers_None)

lemma demo_batch_invalid_rejected: "BulkTransferRequest_Validate demo_batch_invalid \<noteq> None"
  by (simp add: BulkTransferRequest_Validate_def demo_batch_invalid_def
      CreateTransactionRequest_Validate_def demo_transfer_def demo_zero_amount_def)



text \<open>
  C2, as stated, fails: a bulk request of three transfers whose second element has a zero
  amount is refused as a whole by \<open>BulkTransferRequest.Validate\<close>, which validates every
  element before any is executed. No element runs and the database is unchanged.
\<close>

theorem bulk_zero_amount_counterexample:
  "TransactionService_ProcessBulkTransfers (\<lambda>_. no_faults) demo_db demo_batch_invalid
     = (Inl (ValidationError (''transfers['' @ [char_of (1 :: nat)] @ ''].amount'')
               ''amount must be positive''), demo_db)"
  by (simp add: TransactionService_ProcessBulkTransfers_def BulkTransferRequest_Validate_def
      demo_batch_invalid_def CreateTransactionRequest_Validate_def demo_transfer_def
      demo_zero_amount_def demo_deposit_def)

text \<open>
  C2, amended. A bulk request is accepted exactly when it has 1 to 100 elements and every
  element passes validation; a request that is not accepted is refused with a
  \<open>ValidationError\<close> and the database is unchanged. When it is accepted, every element is
  executed by its own call of \<open>CreateTransaction\<close>, on the database the calls for the
  previous elements left, whatever their outcomes were, and an index is in the failure
  list exactly when the call for that element failed.
\<close>

theorem bulk_rejects_invalid_batch_else_runs_every_element:
  "(BulkTransferRequest_Validate reqs = None)
     = (0 < length reqs \<and> length reqs \<le> 100
        \<and> (\<forall>r \<in> set reqs. CreateTransactionRequest_Validate r = None))
   \<and> (BulkTransferRequest_Validate reqs \<noteq> None \<longrightarrow>
        (\<exists>fld msg. TransactionService_ProcessBulkTransfers fs st reqs
                      = (Inl (ValidationError fld msg), st)))
   \<and> (BulkTransferRequest_Validate reqs = None \<longrightarrow>
        (\<exists>resp. TransactionService_ProcessBulkTransfers fs st reqs
                   = (Inr resp, run_elements fs 0 reqs st)
           \<and> (\<forall>j < length reqs.
                 (j \<in> Index ` set (Failed resp))
                 = isl (fst (TransactionService_CreateTransaction (fs j)
                              (run_elements fs 0 (take j reqs) st) (reqs ! j))))))"
proof (intro conjI impI)
  show "(BulkTransferRequest_Validate reqs = None)
     = (0 < length reqs \<and> length reqs \<le> 100
        \<and> (\<forall>r \<in> set reqs. CreateTransactionRequest_Validate r = None))"
    by (rule BulkTransferRequest_Validate_None)
next
  assume "BulkTransferRequest_Validate reqs \<noteq> None"
  then obtain err where e: "BulkTransferRequest_Validate reqs = Some err" by blast
  then obtain fld msg where "err = ValidationError fld msg"
    using BulkTransferRequest_Validate_Some by blast
  then show "\<exists>fld msg. TransactionService_ProcessBulkTransfers fs st reqs
                      = (Inl (ValidationError fld msg), st)"
    using e by (simp add: TransactionService_ProcessBulkTransfers_def)
next
  assume v: "BulkTransferRequest_Validate reqs = None"
  obtain resp st' where
    p: "process_transfers fs 0 reqs \<lparr>Transfers = [], Failed = []\<rparr> st = (resp, st')"
    by (cases "process_transfers fs 0 reqs \<lparr>Transfers = [], Failed = []\<rparr> st")
  from process_transfers_outcomes [OF p] obtain fails where
    f: "Failed resp = fails"
    and ex: "\<forall>j < length reqs.
               (0 + j \<in> Index ` set fails)
               = isl (fst (TransactionService_CreateTransaction (fs (0 + j))
                            (run_elements fs 0 (take j reqs) st) (reqs ! j)))"
    and fin: "st' = run_elements fs 0 reqs st"
    by auto
  have "TransactionService_ProcessBulkTransfers fs st reqs
          = (Inr resp, run_elements fs 0 reqs st)"
    using v p fin by (simp add: TransactionService_ProcessBulkTransfers_def)
  moreover have "\<forall>j < length reqs.
                 (j \<in> Index ` set (Failed resp))
                 = isl (fst (TransactionService_CreateTransaction (fs j)
                              (run_elements fs 0 (take j reqs) st) (reqs ! j)))"
    using ex f by simp
  ultimately show "\<exists>resp. TransactionService_ProcessBulkTransfers fs st reqs
                   = (Inr resp, run_elements fs 0 reqs st)
           \<and> (\<forall>j < length reqs.
                 (j \<in> Index ` set (Failed resp))
                 = isl (fst (TransactionService_CreateTransaction (fs j)
                              (run_elements fs 0 (take j reqs) st) (reqs ! j))))"
    by blast
qed

theorem bulk_rejects_invalid_batch_else_runs_every_element_witness:
  "BulkTransferRequest_Validate demo_batch = None
   \<and> TransactionService_ProcessBulkTransfers (\<lambda>_. no_faults) demo_db demo_batch
       = (Inr demo_bulk_response, demo_db_final)
   \<and> run_elements (\<lambda>_. no_faults) 0 demo_batch demo_db = demo_db_final
   \<and> length (Transfers demo_bulk_response) = 2
   \<and> map Index (Failed demo_bulk_response) = [1]
   \<and> BulkTransferRequest_Validate demo_batch_invalid \<noteq> None
   \<and> (\<exists>fld msg. TransactionService_ProcessBulkTransfers (\<lambda>_. no_faults) demo_db
                    demo_batch_invalid = (Inl (ValidationError fld msg), demo_db))"
  using bulk_rejects_invalid_batch_else_runs_every_element
          [of demo_batch "\<lambda>_. no_faults" demo_db]
        bulk_rejects_invalid_batch_else_runs_every_element
          [of demo_batch_invalid "\<lambda>_. no_faults" demo_db]
        demo_batch_valid demo_batch_result demo_batch_invalid_rejected
  by (simp add: demo_bulk_response_def)

section \<open>Failures of the storage\<close>














section \<open>Idempotency\<close>

text \<open>
  C5. A request with an idempotency token whose fingerprint has a stored, unexpired,
  completed record should be answered with the stored response and change nothing. The
  handler does not do so: it reads the header and drops it. Here the record is returned by
  \<open>GetRequest\<close>, and the repeated request is executed again: it gets a new transfer (id 4),
  a second row is written and account 1 is debited a second time.
\<close>

theorem idempotency_key_is_ignored:
  "IdempotencyRepository_GetRequest False demo_db_replay demo_key_hash
     = Inr (Some demo_idempotency_record)
   \<and> ResponseStatus demo_idempotency_record = Some 201
   \<and> length (transactions demo_db_replay) = 1
   \<and> map_option Balance (accounts demo_db_replay 1) = Some (3399 / 4)
   \<and> fst (TransactionHandler_CreateTransaction (\<lambda>_. no_faults) demo_db_replay
             demo_http_request)
       = (201, TransferPayload
            \<lparr>resp_ID = 4, resp_SourceAccountID = Some 1, resp_DestinationAccountID = 2,
             resp_Amount = 601 / 4, resp_Reference = Some ''demo-payment'',
             resp_Status = TransactionStatusCompleted, resp_CreatedAt = 200\<rparr>)
   \<and> length (transactions (snd (TransactionHandler_CreateTransaction (\<lambda>_. no_faults)
                                   demo_db_replay demo_http_request))) = 2
   \<and> map_option Balance
         (accounts (snd (TransactionHandler_CreateTransaction (\<lambda>_. no_faults)
                           demo_db_replay demo_http_request)) 1)
       = Some (1399 / 2)"
  by (simp add: IdempotencyRepository_GetRequest_def demo_db_replay_def
      demo_idempotency_record_def interval_24_hours_def demo_db_after_def
      TransactionHandler_CreateTransaction_def demo_http_request_def handleSingleTransfer_def
      TransactionService_CreateTransaction_def CreateTransactionRequest_Validate_def
      no_faults_def transfer_in_tx_def check_source_def debit_source_def
      credit_destination_def AccountRepository_GetBalanceForUpdate_def
      AccountRepository_UpdateBalance_def TransactionRepository_Create_def
      TransactionRepository_UpdateStatus_def demo_transfer_def Let_def)

section \<open>Listing the transfers of an account\<close>

lemma GetAccountTransactions_length:
  assumes "TransactionRepository_GetAccountTransactions fault st accountID limit offset
             = Inr txns"
  shows "length txns
       = min (nat limit)
           (length (filter (\<lambda>t. txn_SourceAccountID t = Some accountID
                                 \<or> txn_DestinationAccountID t = accountID)
                      (transactions st)) - nat offset)"
  using assms
  by (auto simp: TransactionRepository_GetAccountTransactions_def split: if_splits)

lemma demo_history_rows:
  "length (filter (\<lambda>t. txn_SourceAccountID t = Some 1 \<or> txn_DestinationAccountID t = 1)
             (transactions demo_history_db)) = 25"
  by (simp add: demo_history_db_def filter_map o_def)

text \<open>
  C8, as stated, fails: with 25 transfers on the account, a requested limit of 150 yields
  20 results (the default), while a limit of 100 yields all 25; the limit is not clamped
  to 100.
\<close>

theorem limit_above_100_counterexample:
  "map_sum (\<lambda>e. e) length
     (TransactionService_GetAccountTransactions False False demo_history_db 1 150 0) = Inr 20
   \<and> map_sum (\<lambda>e. e) length
     (TransactionService_GetAccountTransactions False False demo_history_db 1 100 0) = Inr 25"
proof -
  have e: "accounts demo_history_db 1 \<noteq> None"
    by (simp add: demo_history_db_def demo_db_def)
  have a: "\<And>l. 0 \<le> l \<Longrightarrow>
     map_sum (\<lambda>e. e) length
       (TransactionRepository_GetAccountTransactions False demo_history_db 1 l 0)
     = Inr (min (nat l) 25)"
  proof -
    fix l :: int assume l: "0 \<le> l"
    then obtain txns where
      t: "TransactionRepository_GetAccountTransactions False demo_history_db 1 l 0 = Inr txns"
      by (simp add: TransactionRepository_GetAccountTransactions_def)
    from GetAccountTransactions_length [OF t] demo_history_rows
    have "length txns = min (nat l) 25" by simp
    then show "map_sum (\<lambda>e. e) length
       (TransactionRepository_GetAccountTransactions False demo_history_db 1 l 0)
     = Inr (min (nat l) 25)" using t by simp
  qed
  show ?thesis
    using e a [of 20] a [of 100]
    by (simp add: TransactionService_GetAccountTransactions_def AccountRepository_Exists_def)
qed

text \<open>
  C8, amended. On an existing account the service uses the limit as given when it is
  within 1 to 100 and the default 20 otherwise (so at most 20 results for a limit above
  100 or below 1), and uses 0 for a negative offset. In the HTTP shell an absent limit and
  offset are 20 and 0, and a limit outside 1 to 100 or a negative offset is refused as
  invalid.
\<close>

theorem list_limit_falls_back_to_default:
  assumes "accounts st accountID \<noteq> None"
  shows "TransactionService_GetAccountTransactions False fault st accountID limit offset
           = TransactionRepository_GetAccountTransactions fault st accountID
               (if 1 \<le> limit \<and> limit \<le> 100 then limit else 20)
               (if offset < 0 then 0 else offset)
       \<and> (\<forall>txns. TransactionService_GetAccountTransactions False fault st accountID
                     limit offset = Inr txns \<longrightarrow>
              length txns \<le> (if 1 \<le> limit \<and> limit \<le> 100 then nat limit else 20))
       \<and> parseQueryParams Empty Empty = Inr (20, 0)
       \<and> (limit \<le> 0 \<or> 100 < limit \<longrightarrow>
             parseQueryParams (Number limit) offsetStr = Inl ''invalid limit parameter'')
       \<and> (offset < 0 \<longrightarrow> isl (parseQueryParams limitStr (Number offset)))"
proof (intro conjI allI impI)
  show eq: "TransactionService_GetAccountTransactions False fault st accountID limit offset
           = TransactionRepository_GetAccountTransactions fault st accountID
               (if 1 \<le> limit \<and> limit \<le> 100 then limit else 20)
               (if offset < 0 then 0 else offset)"
    using assms
    by (auto simp: TransactionService_GetAccountTransactions_def AccountRepository_Exists_def
        intro!: arg_cong2 [where f = "TransactionRepository_GetAccountTransactions fault st accountID"])
  fix txns
  assume "TransactionService_GetAccountTransactions False fault st accountID limit offset
            = Inr txns"
  then have "TransactionRepository_GetAccountTransactions fault st accountID
               (if 1 \<le> limit \<and> limit \<le> 100 then limit else 20)
               (if offset < 0 then 0 else offset) = Inr txns"
    using eq by simp
  from GetAccountTransactions_length [OF this]
  show "length txns \<le> (if 1 \<le> limit \<and> limit \<le> 100 then nat limit else 20)"
    by (auto split: if_splits)
next
  show "parseQueryParams Empty Empty = Inr (20, 0)"
    by (simp add: parseQueryParams_def)
next
  assume "limit \<le> 0 \<or> 100 < limit"
  then show "parseQueryParams (Number limit) offsetStr = Inl ''invalid limit parameter''"
    by (auto simp: parseQueryParams_def)
next
  assume "offset < 0"
  then show "isl (parseQueryParams limitStr (Number offset))"
    by (auto simp: parseQueryParams_def split: query_value.splits option.splits)
qed

theorem list_limit_falls_back_to_default_witness:
  "accounts demo_history_db 1 \<noteq> None
   \<and> TransactionService_GetAccountTransactions False False demo_history_db 1 150 (- 3)
       = TransactionRepository_GetAccountTransactions False demo_history_db 1 20 0
   \<and> map_sum (\<lambda>e. e) length
        (TransactionService_GetAccountTransactions False False demo_history_db 1 150 (- 3))
       = Inr 20
   \<and> parseQueryParams (Number 150) Empty = Inl ''invalid limit parameter''"
proof -
  have e: "accounts demo_history_db 1 \<noteq> None"
    by (simp add: demo_history_db_def demo_db_def)
  obtain txns where
    t: "TransactionRepository_GetAccountTransactions False demo_history_db 1 20 0 = Inr txns"
    by (simp add: TransactionRepository_GetAccountTransactions_def)
  from GetAccountTransactions_length [OF t] demo_history_rows
  have "length txns = 20" by simp
  then show ?thesis
    using list_limit_falls_back_to_default [OF e, of False 150 "- 3" Empty Empty] e t
    by simp
qed

end
